theory Spec2Isabelle
  imports Main "HOL-Library.List_Lexorder" "HOL-Library.Multiset"
begin

section \<open>Guideline batch converter: natural sort and per-guideline text artifacts\<close>

text \<open>
  The development embeds \<^verbatim>\<open>main-llamaparse.py\<close>. File names, paths and texts are
  \<^typ>\<open>string\<close>s read as ASCII: a character is a decimal digit when it lies in
  \<^verbatim>\<open>0..9\<close>, and lower-casing moves \<^verbatim>\<open>A..Z\<close> to \<^verbatim>\<open>a..z\<close>. Characters outside
  ASCII are left alone by every function below.
\<close>

subsection \<open>Strings\<close>

definition is_digit :: "char \<Rightarrow> bool" where
  "is_digit c = (48 \<le> (of_char c :: nat) \<and> (of_char c :: nat) \<le> 57)"

definition digit_val :: "char \<Rightarrow> int" where
  "digit_val c = int (of_char c) - 48"

text \<open>\<^verbatim>\<open>str.isdigit()\<close>: every character is a digit and there is at least one.\<close>

definition isdigit :: "string \<Rightarrow> bool" where
  "isdigit s = (s \<noteq> [] \<and> list_all is_digit s)"

text \<open>\<^verbatim>\<open>int(text)\<close> on a run of decimal digits; Python integers are unbounded.\<close>

definition py_int :: "string \<Rightarrow> int" where
  "py_int s = foldl (\<lambda>a c. 10 * a + digit_val c) 0 s"

definition lower_char :: "char \<Rightarrow> char" where
  "lower_char c =
     (if 65 \<le> (of_char c :: nat) \<and> (of_char c :: nat) \<le> 90
      then char_of ((of_char c :: nat) + 32) else c)"

definition lower :: "string \<Rightarrow> string" where
  "lower s = map lower_char s"

text \<open>\<^verbatim>\<open>s.endswith(suf)\<close>.\<close>

definition endswith :: "string \<Rightarrow> string \<Rightarrow> bool" where
  "endswith s suf = (length suf \<le> length s \<and> drop (length s - length suf) s = suf)"

text \<open>\<^verbatim>\<open>sep.join(parts)\<close>.\<close>

fun join :: "string \<Rightarrow> string list \<Rightarrow> string" where
  "join sep [] = []"
| "join sep [x] = x"
| "join sep (x # y # ys) = x @ sep @ join sep (y # ys)"

definition page_separator :: string where
  "page_separator = [CHR 0x0A, CHR ''-'', CHR ''-'', CHR ''-'', CHR 0x0A]"

subsection \<open>The natural sort key\<close>

text \<open>
  \<^verbatim>\<open>re.split(r'(\d+)', filename)\<close>: the text before the first run of digits, the run
  itself (the pattern has a capturing group, so the run is kept), and the split of what
  follows the run. A string without digits is returned whole, as one chunk.
\<close>

function re_split_digits :: "string \<Rightarrow> string list" where
  "re_split_digits s =
     (if dropWhile (\<lambda>c. \<not> is_digit c) s = [] then [takeWhile (\<lambda>c. \<not> is_digit c) s]
      else takeWhile (\<lambda>c. \<not> is_digit c) s
             # takeWhile is_digit (dropWhile (\<lambda>c. \<not> is_digit c) s)
             # re_split_digits (dropWhile is_digit (dropWhile (\<lambda>c. \<not> is_digit c) s)))"
  by pat_completeness auto

lemma length_drop_digit_run:
  assumes "dropWhile (\<lambda>c. \<not> is_digit c) s \<noteq> []"
  shows "length (dropWhile is_digit (dropWhile (\<lambda>c. \<not> is_digit c) s)) < length s"
proof -
  let ?r = "dropWhile (\<lambda>c. \<not> is_digit c) s"
  from assms have "is_digit (hd ?r)"
    using hd_dropWhile [of "\<lambda>c. \<not> is_digit c" s] by simp
  with assms have "length (dropWhile is_digit ?r) < length ?r"
    by (cases ?r) (auto simp: le_imp_less_Suc length_dropWhile_le)
  also have "length ?r \<le> length s"
    by (rule length_dropWhile_le)
  finally show ?thesis .
qed

termination re_split_digits
  by (relation "measure length") (simp_all add: length_drop_digit_run)

declare re_split_digits.simps [simp del]

text \<open>An element of a key: an integer for a run of digits, a string for anything else.\<close>

datatype key_part = Num int | Txt string

definition key_of_chunk :: "string \<Rightarrow> key_part" where
  "key_of_chunk text = (if isdigit text then Num (py_int text) else Txt (lower text))"

definition natural_sort_key :: "string \<Rightarrow> key_part list" where
  "natural_sort_key filename = map key_of_chunk (re_split_digits filename)"

subsection \<open>Comparing keys and sorting\<close>

datatype error =
    TypeError
  | FileExistsError string
  | IsADirectoryError string
  | FileNotFoundError string

text \<open>Strings compare by code point, a proper prefix before the longer string.\<close>

fun str_lt :: "string \<Rightarrow> string \<Rightarrow> bool" where
  "str_lt [] [] = False"
| "str_lt [] (y # ys) = True"
| "str_lt (x # xs) [] = False"
| "str_lt (x # xs) (y # ys) =
     (if x = y then str_lt xs ys else (of_char x :: nat) < of_char y)"

text \<open>\<^verbatim>\<open><\<close> between two key elements: an integer against a string raises \<^verbatim>\<open>TypeError\<close>.\<close>

fun part_lt :: "key_part \<Rightarrow> key_part \<Rightarrow> error + bool" where
  "part_lt (Num m) (Num n) = Inr (m < n)"
| "part_lt (Txt s) (Txt t) = Inr (str_lt s t)"
| "part_lt (Num m) (Txt t) = Inl TypeError"
| "part_lt (Txt s) (Num n) = Inl TypeError"

text \<open>
  \<^verbatim>\<open><\<close> between two lists: the first position where the elements are not equal
  decides, by \<^verbatim>\<open><\<close> on those two elements; when one list is a prefix of the other,
  the shorter one is smaller.
\<close>

fun key_lt :: "key_part list \<Rightarrow> key_part list \<Rightarrow> error + bool" where
  "key_lt [] [] = Inr False"
| "key_lt [] (b # bs) = Inr True"
| "key_lt (a # as) [] = Inr False"
| "key_lt (a # as) (b # bs) = (if a = b then key_lt as bs else part_lt a b)"

text \<open>
  \<^verbatim>\<open>sorted(names, key=natural_sort_key)\<close> as a stable insertion sort that only asks
  \<^verbatim>\<open><\<close> of two keys, and stops with the error of a comparison that raises.
\<close>

fun insort_py :: "string \<Rightarrow> string list \<Rightarrow> error + string list" where
  "insort_py x [] = Inr [x]"
| "insort_py x (y # ys) =
     (case key_lt (natural_sort_key y) (natural_sort_key x) of
        Inl e \<Rightarrow> Inl e
      | Inr True \<Rightarrow> (case insort_py x ys of Inl e \<Rightarrow> Inl e | Inr zs \<Rightarrow> Inr (y # zs))
      | Inr False \<Rightarrow> Inr (x # y # ys))"

fun sorted_py :: "string list \<Rightarrow> error + string list" where
  "sorted_py [] = Inr []"
| "sorted_py (x # xs) =
     (case sorted_py xs of Inl e \<Rightarrow> Inl e | Inr ys \<Rightarrow> insort_py x ys)"

subsection \<open>Shape of chunks and keys\<close>

fun alternates :: "key_part list \<Rightarrow> bool" where
  "alternates [Txt t] = True"
| "alternates (Txt t # Num n # ks) = alternates ks"
| "alternates ks = False"

fun chunks_ok :: "bool \<Rightarrow> string list \<Rightarrow> bool" where
  "chunks_ok first [t] = (\<not> list_ex is_digit t)"
| "chunks_ok first (t # d # cs) =
     (\<not> list_ex is_digit t \<and> (first \<or> t \<noteq> []) \<and> isdigit d \<and> chunks_ok False cs)"
| "chunks_ok first [] = False"

fun key_matches :: "string list \<Rightarrow> key_part list \<Rightarrow> bool" where
  "key_matches [t] [k] = (k = Txt (lower t))"
| "key_matches (t # d # cs) (k # n # ks) =
     (k = Txt (lower t) \<and> n = Num (py_int d) \<and> key_matches cs ks)"
| "key_matches cs ks = False"

fun enc_part :: "key_part \<Rightarrow> int list" where
  "enc_part (Num n) = [n]"
| "enc_part (Txt s) = map (\<lambda>c. int (of_char c)) s"

definition enc_key :: "string \<Rightarrow> int list list" where
  "enc_key f = map enc_part (natural_sort_key f)"

subsection \<open>Paths\<close>

definition pdfs_directory :: string where
  "pdfs_directory = ''./pdfs''"

definition output_directory :: string where
  "output_directory = ''./output''"

definition startswith :: "string \<Rightarrow> string \<Rightarrow> bool" where
  "startswith s pre = (take (length pre) s = pre)"

text \<open>\<^verbatim>\<open>os.path.join(a, b)\<close> on POSIX: an absolute \<open>b\<close> replaces \<open>a\<close>.\<close>

definition os_path_join :: "string \<Rightarrow> string \<Rightarrow> string" where
  "os_path_join a b =
     (if startswith b ''/'' then b
      else if a = [] \<or> endswith a ''/'' then a @ b
      else a @ ''/'' @ b)"

text \<open>\<^verbatim>\<open>s.rfind(c)\<close>: the last index of \<open>c\<close>, or \<open>-1\<close>.\<close>

primrec rfind_from :: "char \<Rightarrow> string \<Rightarrow> int \<Rightarrow> int \<Rightarrow> int" where
  "rfind_from c [] i found = found"
| "rfind_from c (x # xs) i found = rfind_from c xs (i + 1) (if x = c then i else found)"

definition rfind :: "char \<Rightarrow> string \<Rightarrow> int" where
  "rfind c s = rfind_from c s 0 (- 1)"

text \<open>
  \<^verbatim>\<open>os.path.splitext(p)[0]\<close>: the name up to its last dot, when that dot comes after
  the last separator and after some character of the base name that is not a dot;
  the whole name otherwise.
\<close>

definition splitext_root :: "string \<Rightarrow> string" where
  "splitext_root p =
     (let sepIndex = rfind CHR ''/'' p; dotIndex = rfind CHR ''.'' p
      in if dotIndex > sepIndex \<and>
            list_ex (\<lambda>i. p ! i \<noteq> CHR ''.'') [nat (sepIndex + 1) ..< nat dotIndex]
         then take (nat dotIndex) p else p)"

subsection \<open>The input tree, the collaborator and the output state\<close>

text \<open>
  An entry of the input tree is a regular file or a directory with its listing, in the
  order \<^verbatim>\<open>os.listdir\<close> returns it.
\<close>

datatype node = File | Dir "(string \<times> node) list"

text \<open>
  What \<^verbatim>\<open>parser.load_data\<close> does for one file: it returns the documents (their
  \<^verbatim>\<open>text\<close> fields, one per page) or raises an exception with a message. It is
  given the opened file, named here by its path, and the file name.
\<close>

datatype outcome = Returns "string list" | Raises string

type_synonym parser = "string \<Rightarrow> string \<Rightarrow> outcome"

text \<open>
  The output side: the directories that exist, the text files with their contents, and
  the lines printed so far. File operations fail on an entry of the wrong kind;
  permissions and device errors are outside the model.
\<close>

record fs =
  dirs :: "string set"
  files :: "string \<Rightarrow> string option"
  console :: "string list"

text \<open>\<^verbatim>\<open>os.makedirs(p, exist_ok=True)\<close>: an existing directory is accepted, an existing
  file is not.\<close>

definition os_makedirs :: "string \<Rightarrow> fs \<Rightarrow> error + fs" where
  "os_makedirs p st =
     (case files st p of
        Some old \<Rightarrow> Inl (FileExistsError p)
      | None \<Rightarrow> Inr (st\<lparr>dirs := insert p (dirs st)\<rparr>))"

text \<open>\<^verbatim>\<open>with open(p, "w") as f: f.write(text)\<close>: creates or replaces the file.\<close>

definition write_text :: "string \<Rightarrow> string \<Rightarrow> fs \<Rightarrow> error + fs" where
  "write_text p text st =
     (if p \<in> dirs st then Inl (IsADirectoryError p)
      else Inr (st\<lparr>files := (files st)(p \<mapsto> text)\<rparr>))"

definition print :: "string \<Rightarrow> fs \<Rightarrow> fs" where
  "print line st = st\<lparr>console := console st @ [line]\<rparr>"

definition quoted :: "string \<Rightarrow> string" where
  "quoted p = [CHR 0x27] @ p @ [CHR 0x27]"

text \<open>\<^verbatim>\<open>str(e)\<close> of an exception.\<close>

fun error_str :: "error \<Rightarrow> string" where
  "error_str TypeError = ''unorderable key elements''"
| "error_str (FileExistsError p) = ''[Errno 17] File exists: '' @ quoted p"
| "error_str (IsADirectoryError p) = ''[Errno 21] Is a directory: '' @ quoted p"
| "error_str (FileNotFoundError p) = ''[Errno 2] No such file or directory: '' @ quoted p"

subsection \<open>The converter\<close>

text \<open>
  The body of the loop over the files of one guideline folder (source lines 59 to 83).
  The input file is opened before the \<^verbatim>\<open>try\<close>, so a failure to open it leaves the
  loop; everything from the call of the collaborator to the write of the per-file text
  is inside the \<^verbatim>\<open>try\<close>, whose handler prints and goes on. The joined text is
  appended to \<open>combined_texts\<close> before the per-file text is written.
\<close>

definition process_pdf ::
  "parser \<Rightarrow> (string \<times> node) list \<Rightarrow> string \<Rightarrow> string \<Rightarrow> string \<Rightarrow>
   string list \<times> fs \<Rightarrow> error + string list \<times> fs" where
  "process_pdf load_data listing guideline_path output_guideline_path pdf_file acc =
     (case acc of (combined_texts, st) \<Rightarrow>
        if endswith pdf_file ''.pdf'' then
          let pdf_path = os_path_join guideline_path pdf_file;
              output_txt_path =
                os_path_join output_guideline_path (splitext_root pdf_file @ ''.txt'')
          in case map_of listing pdf_file of
               None \<Rightarrow> Inl (FileNotFoundError pdf_path)
             | Some (Dir sub) \<Rightarrow> Inl (IsADirectoryError pdf_path)
             | Some File \<Rightarrow>
                 (case load_data pdf_path pdf_file of
                    Raises e \<Rightarrow>
                      Inr (combined_texts,
                           print (''Error while parsing '' @ pdf_file @ '': '' @ e) st)
                  | Returns documents \<Rightarrow>
                      if documents = [] then
                        Inr (combined_texts,
                             print (''Warning: No text extracted from '' @ pdf_file @
                                    ''. The document might be empty or unsupported.'') st)
                      else
                        let page_text = join page_separator documents;
                            combined_texts' = combined_texts @ [page_text]
                        in case write_text output_txt_path page_text st of
                             Inl e \<Rightarrow>
                               Inr (combined_texts',
                                    print (''Error while parsing '' @ pdf_file @ '': '' @
                                           error_str e) st)
                           | Inr st' \<Rightarrow>
                               Inr (combined_texts',
                                    print (''Text extracted and saved to '' @
                                           output_txt_path) st'))
        else Inr acc)"

fun pdf_loop ::
  "parser \<Rightarrow> (string \<times> node) list \<Rightarrow> string \<Rightarrow> string \<Rightarrow> string list \<Rightarrow>
   string list \<times> fs \<Rightarrow> error + string list \<times> fs" where
  "pdf_loop load_data listing gp op [] acc = Inr acc"
| "pdf_loop load_data listing gp op (pdf_file # rest) acc =
     (case process_pdf load_data listing gp op pdf_file acc of
        Inl e \<Rightarrow> Inl e
      | Inr acc' \<Rightarrow> pdf_loop load_data listing gp op rest acc')"

definition master_txt_path :: "string \<Rightarrow> string" where
  "master_txt_path guideline_folder =
     os_path_join (os_path_join output_directory guideline_folder)
       (guideline_folder @ ''_combined.txt'')"

text \<open>
  The body of the loop over the guideline folders, for an entry that is a directory
  (source lines 49 to 90).
\<close>

definition process_guideline ::
  "parser \<Rightarrow> string \<Rightarrow> (string \<times> node) list \<Rightarrow> fs \<Rightarrow> error + fs" where
  "process_guideline load_data guideline_folder listing st =
     (let guideline_path = os_path_join pdfs_directory guideline_folder;
          output_guideline_path = os_path_join output_directory guideline_folder
      in case os_makedirs output_guideline_path st of
           Inl e \<Rightarrow> Inl e
         | Inr st1 \<Rightarrow>
             (case sorted_py (map fst listing) of
                Inl e \<Rightarrow> Inl e
              | Inr names \<Rightarrow>
                  (case pdf_loop load_data listing guideline_path output_guideline_path
                          names ([], st1) of
                     Inl e \<Rightarrow> Inl e
                   | Inr (combined_texts, st2) \<Rightarrow>
                       (case write_text (master_txt_path guideline_folder)
                               (join page_separator combined_texts) st2 of
                          Inl e \<Rightarrow> Inl e
                        | Inr st3 \<Rightarrow>
                            Inr (print (''Master file saved to '' @
                                        master_txt_path guideline_folder) st3)))))"



text \<open>The content of a path after a run, when the run came to its end.\<close>

definition artifact :: "error + fs \<Rightarrow> string \<Rightarrow> string option" where
  "artifact res p = (case res of Inl e \<Rightarrow> None | Inr st \<Rightarrow> files st p)"

text \<open>The lines printed by a run that came to its end.\<close>

definition printed :: "error + fs \<Rightarrow> string list" where
  "printed res = (case res of Inl e \<Rightarrow> [] | Inr st \<Rightarrow> console st)"


text \<open>An output tree in which the path of \<^verbatim>\<open>a1.txt\<close> is taken by a directory.\<close>

definition blocked_fs :: fs where
  "blocked_fs =
     \<lparr>dirs = {''./output'', ''./output/g'', ''./output/g/a1.txt''},
      files = Map.empty, console = []\<rparr>"

subsection \<open>Names, and what a folder contributes\<close>



text \<open>
  The text one file contributes to the master text: the joined pages of a file whose
  name ends in \<^verbatim>\<open>.pdf\<close> and for which the collaborator returned at least one
  document; nothing otherwise.
\<close>

definition extracted_text :: "parser \<Rightarrow> string \<Rightarrow> string \<Rightarrow> string option" where
  "extracted_text load_data guideline_path pdf_file =
     (if endswith pdf_file ''.pdf'' then
        (case load_data (os_path_join guideline_path pdf_file) pdf_file of
           Returns documents \<Rightarrow>
             if documents = [] then None else Some (join page_separator documents)
         | Raises e \<Rightarrow> None)
      else None)"

definition successful_texts :: "parser \<Rightarrow> string \<Rightarrow> string list \<Rightarrow> string list" where
  "successful_texts load_data guideline_path names =
     List.map_filter (extracted_text load_data guideline_path) names"


subsection \<open>A small collaborator for concrete runs\<close>

definition example_parser :: parser where
  "example_parser path name =
     (if name = ''a1.pdf'' then Returns [''X'', ''Y'']
      else if name = ''a01.pdf'' then Returns [''Z'']
      else if name = ''e.pdf'' then Returns []
      else Raises ''boom'')"

subsection \<open>Well-formed inputs, and two runs side by side\<close>

















section \<open>Properties of the natural sort key\<close>

lemma text_chunk_no_digit: "\<not> list_ex is_digit (takeWhile (\<lambda>c. \<not> is_digit c) s)"
  by (induction s) auto

lemma text_chunk_not_isdigit: "\<not> list_ex is_digit t \<Longrightarrow> \<not> isdigit t"
  by (cases t) (auto simp: isdigit_def)

lemma digit_run_isdigit:
  assumes "dropWhile (\<lambda>c. \<not> is_digit c) s \<noteq> []"
  shows "isdigit (takeWhile is_digit (dropWhile (\<lambda>c. \<not> is_digit c) s))"
proof -
  let ?r = "dropWhile (\<lambda>c. \<not> is_digit c) s"
  from assms have "is_digit (hd ?r)"
    using hd_dropWhile [of "\<lambda>c. \<not> is_digit c" s] by simp
  with assms have "takeWhile is_digit ?r \<noteq> []"
    by (cases ?r) auto
  moreover have "list_all is_digit (takeWhile is_digit ?r)"
    by (simp add: list_all_iff) (meson set_takeWhileD)
  ultimately show ?thesis by (simp add: isdigit_def)
qed


lemma chunks_ok_split_gen:
  "(first \<or> s = [] \<or> \<not> is_digit (hd s)) \<Longrightarrow> chunks_ok first (re_split_digits s)"
proof (induction s arbitrary: first rule: re_split_digits.induct)
  case (1 s)
  let ?r = "dropWhile (\<lambda>c. \<not> is_digit c) s"
  show ?case
  proof (cases "?r = []")
    case True
    then show ?thesis
      by (subst re_split_digits.simps) (simp add: text_chunk_no_digit)
  next
    case False
    have hd: "dropWhile is_digit ?r = [] \<or> \<not> is_digit (hd (dropWhile is_digit ?r))"
      using hd_dropWhile [of is_digit ?r] by blast
    have "chunks_ok False (re_split_digits (dropWhile is_digit ?r))"
      using "1.IH" [OF False, of False] hd by blast
    moreover have "first \<or> takeWhile (\<lambda>c. \<not> is_digit c) s \<noteq> []"
      using "1.prems" False by (cases s) auto
    ultimately show ?thesis using False
      by (subst re_split_digits.simps) (simp add: text_chunk_no_digit digit_run_isdigit)
  qed
qed

lemma chunks_ok_key_matches:
  "chunks_ok first cs \<Longrightarrow> key_matches cs (map key_of_chunk cs)"
  by (induction first cs rule: chunks_ok.induct)
     (auto simp: key_of_chunk_def text_chunk_not_isdigit)

lemma key_matches_alternates: "key_matches cs ks \<Longrightarrow> alternates ks"
  by (induction cs ks rule: key_matches.induct) auto


lemma alternates_natural_sort_key: "alternates (natural_sort_key f)"
  unfolding natural_sort_key_def
  using chunks_ok_split_gen [of True f] chunks_ok_key_matches key_matches_alternates by blast

lemma str_lt_enc: "str_lt s t \<longleftrightarrow> map (\<lambda>c. int (of_char c)) s < map (\<lambda>c. int (of_char c)) t"
  by (induction s t rule: str_lt.induct) auto

lemma enc_txt_inj: "map (\<lambda>c. int (of_char c)) s = map (\<lambda>c. int (of_char c)) t \<longleftrightarrow> s = t"
proof -
  have "inj (\<lambda>c::char. int (of_char c))"
    by (rule injI) simp
  then show ?thesis by (simp add: inj_map_eq_map)
qed

lemma key_lt_enc:
  "alternates a \<Longrightarrow> alternates b \<Longrightarrow> key_lt a b = Inr (map enc_part a < map enc_part b)"
proof (induction a arbitrary: b rule: alternates.induct)
  case (1 t)
  then show ?case
    by (cases b rule: alternates.cases) (auto simp: str_lt_enc enc_txt_inj)
next
  case (2 t n ks)
  then show ?case
    by (cases b rule: alternates.cases) (auto simp: str_lt_enc enc_txt_inj)
qed simp_all

lemma key_lt_natural_sort_key:
  "key_lt (natural_sort_key f) (natural_sort_key g) = Inr (enc_key f < enc_key g)"
  by (simp add: key_lt_enc alternates_natural_sort_key enc_key_def)

lemma insort_py_insort_key: "insort_py x ys = Inr (insort_key enc_key x ys)"
  by (induction ys) (simp_all add: key_lt_natural_sort_key flip: not_less)

lemma sorted_py_sort_key: "sorted_py xs = Inr (sort_key enc_key xs)"
  by (induction xs) (auto simp: insort_py_insort_key)













section \<open>Properties of paths and of the converter\<close>


lemma startswith_single: "startswith s [c] \<longleftrightarrow> s \<noteq> [] \<and> hd s = c"
  by (cases s) (simp_all add: startswith_def)














lemma successful_texts_Nil: "successful_texts ld gp [] = []"
  by (simp add: successful_texts_def map_filter_simps)

lemma successful_texts_Cons:
  "successful_texts ld gp (f # fs) =
     (case extracted_text ld gp f of None \<Rightarrow> [] | Some t \<Rightarrow> [t]) @ successful_texts ld gp fs"
  by (simp add: successful_texts_def map_filter_simps split: option.splits)


lemma process_pdf_acc:
  assumes "process_pdf ld l gp op f (acc, st) = Inr (acc', st')"
  shows "acc' = acc @ (case extracted_text ld gp f of None \<Rightarrow> [] | Some t \<Rightarrow> [t]) \<and>
         dirs st' = dirs st"
  using assms
  by (auto simp: process_pdf_def extracted_text_def Let_def write_text_def print_def
      split: if_splits option.splits node.splits outcome.splits sum.splits)


lemma pdf_loop_acc:
  "pdf_loop ld l gp op names (acc, st) = Inr (acc', st') \<Longrightarrow>
     acc' = acc @ successful_texts ld gp names \<and> dirs st' = dirs st"
proof (induction names arbitrary: acc st)
  case Nil
  then show ?case by (simp add: successful_texts_Nil)
next
  case (Cons f fs)
  from Cons.prems obtain a1 s1 where
    step: "process_pdf ld l gp op f (acc, st) = Inr (a1, s1)" and
    rest: "pdf_loop ld l gp op fs (a1, s1) = Inr (acc', st')"
    by (auto split: sum.splits)
  from process_pdf_acc [OF step] Cons.IH [OF rest] show ?case
    by (simp add: successful_texts_Cons)
qed


lemma set_sorted_names: "sorted_py xs = Inr ys \<Longrightarrow> set ys = set xs"
  by (auto simp: sorted_py_sort_key)







lemma extracted_text_failed:
  "(\<exists>e. ld (os_path_join gp f) f = Raises e) \<or> ld (os_path_join gp f) f = Returns [] \<Longrightarrow>
     extracted_text ld gp f = None"
  by (auto simp: extracted_text_def)

lemma extracted_text_pages:
  "endswith f ''.pdf'' \<Longrightarrow> ld (os_path_join gp f) f = Returns docs \<Longrightarrow> docs \<noteq> [] \<Longrightarrow>
     extracted_text ld gp f = Some (join page_separator docs)"
  by (simp add: extracted_text_def)






lemma print_fields [simp]:
  "dirs (print m s) = dirs s" "files (print m s) = files s"
  by (simp_all add: print_def)




















































section \<open>The claims\<close>










text \<open>
  C4 (as amended). The joined text of a file is appended to the accumulator before its
  per-file text is written. A file whose extraction comes back empty or raises
  contributes nothing to the accumulator, and with it nothing to the master text; a
  file whose extraction returns pages contributes their joined text, also when the
  write of its per-file text then fails, in which case the error is printed and no
  per-file text is written.
\<close>

theorem accumulator_before_write:
  "(process_pdf ld l gp op f (acc, st) = Inr (acc', st') \<longrightarrow>
      acc' = acc @ (case extracted_text ld gp f of None \<Rightarrow> [] | Some t \<Rightarrow> [t])) \<and>
   (pdf_loop ld l gp op names (acc, st) = Inr (acc', st') \<longrightarrow>
      acc' = acc @ successful_texts ld gp names) \<and>
   ((\<exists>e. ld (os_path_join gp f) f = Raises e) \<or> ld (os_path_join gp f) f = Returns [] \<longrightarrow>
      extracted_text ld gp f = None) \<and>
   (endswith f ''.pdf'' \<and> ld (os_path_join gp f) f = Returns docs \<and> docs \<noteq> [] \<longrightarrow>
      extracted_text ld gp f = Some (join page_separator docs)) \<and>
   (endswith f ''.pdf'' \<and> map_of l f = Some File \<and>
    ld (os_path_join gp f) f = Returns docs \<and> docs \<noteq> [] \<and>
    os_path_join op (splitext_root f @ ''.txt'') \<in> dirs st \<longrightarrow>
      process_pdf ld l gp op f (acc, st) =
        Inr (acc @ [join page_separator docs],
             print (''Error while parsing '' @ f @ '': '' @
                    error_str (IsADirectoryError
                      (os_path_join op (splitext_root f @ ''.txt'')))) st))"
proof -
  have "endswith f ''.pdf'' \<and> map_of l f = Some File \<and>
    ld (os_path_join gp f) f = Returns docs \<and> docs \<noteq> [] \<and>
    os_path_join op (splitext_root f @ ''.txt'') \<in> dirs st \<longrightarrow>
      process_pdf ld l gp op f (acc, st) =
        Inr (acc @ [join page_separator docs],
             print (''Error while parsing '' @ f @ '': '' @
                    error_str (IsADirectoryError
                      (os_path_join op (splitext_root f @ ''.txt'')))) st)"
    by (simp add: process_pdf_def Let_def write_text_def)
  then show ?thesis
    using process_pdf_acc [of ld l gp op f acc st acc' st']
      pdf_loop_acc [of ld l gp op names acc st acc' st']
      extracted_text_failed [of ld gp f] extracted_text_pages [of f ld gp docs]
    by blast
qed

theorem accumulator_before_write_witness:
  "process_pdf example_parser [(''a1.pdf'', File)] ''./pdfs/g'' ''./output/g'' ''a1.pdf''
       ([], blocked_fs) =
     Inr ([join page_separator [''X'', ''Y'']],
          print (''Error while parsing a1.pdf: '' @
                 error_str (IsADirectoryError ''./output/g/a1.txt''))
            blocked_fs) \<and>
   extracted_text example_parser ''./pdfs/g'' ''a2.pdf'' = None"
proof -
  have 1: "endswith ''a1.pdf'' ''.pdf''" by (simp add: endswith_def)
  have 2: "map_of [(''a1.pdf'', File)] ''a1.pdf'' = Some File" by simp
  have 3: "example_parser (os_path_join ''./pdfs/g'' ''a1.pdf'') ''a1.pdf'' =
      Returns [''X'', ''Y'']"
    by (simp add: example_parser_def)
  have 4: "os_path_join ''./output/g'' (splitext_root ''a1.pdf'' @ ''.txt'') =
      ''./output/g/a1.txt''"
    by code_simp
  have 5: "\<exists>e. example_parser (os_path_join ''./pdfs/g'' ''a2.pdf'') ''a2.pdf'' = Raises e"
    by (simp add: example_parser_def)
  from accumulator_before_write [where f = "''a1.pdf''" and l = "[(''a1.pdf'', File)]"
      and ld = example_parser and gp = "''./pdfs/g''" and docs = "[''X'', ''Y'']"
      and op = "''./output/g''" and st = blocked_fs
      and acc = "[]"]
    accumulator_before_write [where f = "''a2.pdf''" and ld = example_parser
      and gp = "''./pdfs/g''"]
    1 2 3 4 5
  show ?thesis by (simp add: blocked_fs_def)
qed

text \<open>
  C4 as stated fails: when the path of the per-file text is taken by a directory, the
  write fails and is reported, no per-file text exists, and the text of the file is in
  the master text all the same.
\<close>

theorem failed_write_still_contributes:
  "artifact (process_guideline example_parser ''g'' [(''a1.pdf'', File)]
       blocked_fs) ''./output/g/a1.txt'' = None \<and>
   artifact (process_guideline example_parser ''g'' [(''a1.pdf'', File)]
       blocked_fs) ''./output/g/g_combined.txt'' =
     Some (''X'' @ page_separator @ ''Y'') \<and>
   printed (process_guideline example_parser ''g'' [(''a1.pdf'', File)]
       blocked_fs) =
     [''Error while parsing a1.pdf: [Errno 21] Is a directory: '' @
        quoted ''./output/g/a1.txt'',
      ''Master file saved to ./output/g/g_combined.txt'']"
  by code_simp











end
